theory Spec2Isabelle
  imports Main "HOL-Library.Word"
begin

section \<open>Control-message handlers of message.go\<close>

text \<open>
  The handlers of \<^verbatim>\<open>message.go\<close> are methods of the server that receive the client a
  message came from and the raw message.  They read and write objects through pointers
  (\<^verbatim>\<open>*Client\<close>), so the model keeps an explicit store: the server's registries map keys
  to references, and the store maps a reference to the object it denotes.  A nil pointer
  is the value \<open>None\<close> of a lookup; the client a handler is called with is not nil.

  Calls of \<^verbatim>\<open>log.Printf\<close> only write to the process log and are left out;
  \<^verbatim>\<open>log.Panic\<close> is modelled, since it panics.
\<close>

subsection \<open>Data\<close>

type_synonym byte = "8 word"
type_synonym uint32 = "32 word"
type_synonym cref = nat
type_synonym chref = nat

text \<open>The message kinds used by the handlers below (positions in the \<^verbatim>\<open>iota\<close> block).\<close>

definition MessagePing :: nat where
  "MessagePing = 3"

definition MessageTextMessage :: nat where
  "MessageTextMessage = 11"

definition MessageCryptSetup :: nat where
  "MessageCryptSetup = 15"

text \<open>
  \<^verbatim>\<open>Message\<close>: the handlers read only \<^verbatim>\<open>buf\<close>; the fields \<^verbatim>\<open>client\<close> and
  \<^verbatim>\<open>address\<close> concern datagrams and are not part of the model.
\<close>

record Message =
  buf :: "byte list"
  kind :: "16 word"

text \<open>
  \<^verbatim>\<open>cryptstate.CryptState\<close> is declared outside this file.  The model has the fields the
  handlers touch.  The initialisation vectors are byte sequences, so that the results of
  \<^verbatim>\<open>copy\<close> that the code tests are meaningful; the type \<open>'n\<close> of the counters is a
  parameter, which the handlers instantiate by machine integers of any width.
\<close>

record 'n CryptState =
  EncryptIV :: "byte list"
  DecryptIV :: "byte list"
  Good :: 'n
  Late :: 'n
  Lost :: 'n
  Resync :: 'n

text \<open>
  \<^verbatim>\<open>Client\<close> is declared outside this file as well; the handlers use \<^verbatim>\<open>Session\<close> and
  \<^verbatim>\<open>crypt\<close>.

  Modelled from the spec: the declaration of \<^verbatim>\<open>Client\<close> is missing, and the spec gives a
  client a current channel reference; this is the field \<open>currentChannel\<close>.
\<close>

record 'n Client =
  Session :: uint32
  crypt :: "'n CryptState"
  currentChannel :: chref

text \<open>
  Modelled from the spec: the declaration of the channel type is missing; the spec gives a
  channel a set of member session ids.
\<close>

record Channel =
  members :: "uint32 set"

text \<open>
  The server with the objects its registries point to: \<^verbatim>\<open>server.clients\<close> and
  \<^verbatim>\<open>server.channels\<close>, and the store of client and channel objects.
\<close>

record 'n state =
  clients :: "uint32 \<rightharpoonup> cref"
  channels :: "int \<rightharpoonup> chref"
  clientAt :: "cref \<Rightarrow> 'n Client"
  channelAt :: "chref \<Rightarrow> Channel"

text \<open>
  The protocol records of \<^verbatim>\<open>mumbleproto\<close>, with the fields this file reads or writes.
  An optional field (a pointer in the generated code) is an \<open>option\<close>.
\<close>

record CryptSetup =
  ClientNonce :: "byte list"

record Ping =
  ping_Timestamp :: "64 word option"
  ping_Good :: "uint32 option"
  ping_Late :: "uint32 option"
  ping_Lost :: "uint32 option"
  ping_Resync :: "uint32 option"

record UserState =
  us_Session :: "uint32 option"
  us_Actor :: "uint32 option"
  us_ChannelId :: "uint32 option"
  us_Mute :: "bool option"
  us_Deaf :: "bool option"
  us_Suppress :: "bool option"
  us_PrioritySpeaker :: "bool option"
  us_SelfMute :: "bool option"
  us_SelfDeaf :: "bool option"
  us_Comment :: "string option"
  us_Texture :: "byte list option"
  us_UserId :: "uint32 option"
  us_PluginContext :: "byte list option"
  us_PluginIdentity :: "string option"
  us_Recording :: "bool option"

record TextMessage =
  tm_Actor :: "uint32 option"
  tm_Session :: "uint32 list"
  tm_Message :: "string option"

subsection \<open>Effects and outcomes\<close>

text \<open>
  \<^verbatim>\<open>sendProtoMessage\<close> and \<^verbatim>\<open>Panic\<close> are methods of \<^verbatim>\<open>Client\<close> defined elsewhere.
  A handler's calls of them are recorded, in order, as events on the receiving client.
\<close>

datatype payload =
  CryptSetupPayload CryptSetup
| PingPayload Ping
| TextMessagePayload TextMessage

datatype event =
  SendProtoMessage cref nat payload
| ClientPanic cref string

text \<open>
  A handler either returns or panics: by dereferencing a nil pointer, or in
  \<^verbatim>\<open>log.Panic\<close>.  Both outcomes carry the state and the events reached so far.
\<close>

datatype fault = NilDereference | LogPanic string

datatype 'n outcome =
  Returned "'n state" "event list"
| Panicked fault "'n state" "event list"

fun final_state :: "'n outcome \<Rightarrow> 'n state" where
  "final_state (Returned s evs) = s"
| "final_state (Panicked f s evs) = s"

fun events :: "'n outcome \<Rightarrow> event list" where
  "events (Returned s evs) = evs"
| "events (Panicked f s evs) = evs"

fun returns :: "'n outcome \<Rightarrow> bool" where
  "returns (Returned s evs) = True"
| "returns (Panicked f s evs) = False"

fun receiver :: "event \<Rightarrow> cref" where
  "receiver (SendProtoMessage c k p) = c"
| "receiver (ClientPanic c r) = c"

subsection \<open>Built-ins\<close>

text \<open>
  Go's \<^verbatim>\<open>copy(dst, src)\<close> overwrites the first \<open>min (len dst) (len src)\<close> elements of
  \<open>dst\<close> and returns that number; the length of \<open>dst\<close> stays.
\<close>

definition copy :: "'a list \<Rightarrow> 'a list \<Rightarrow> 'a list \<times> nat" where
  "copy dst src =
     (let n = min (length dst) (length src) in (take n src @ drop n dst, n))"

text \<open>The conversion \<^verbatim>\<open>uint32(x)\<close> of an integer of at least 32 bits keeps its low 32 bits.\<close>

definition to_uint32 :: "'w::len word \<Rightarrow> uint32" where
  "to_uint32 x = ucast x"

definition update_crypt ::
  "'n state \<Rightarrow> cref \<Rightarrow> ('n CryptState \<Rightarrow> 'n CryptState) \<Rightarrow> 'n state" where
  "update_crypt s c f =
     s\<lparr>clientAt := (clientAt s)(c := (clientAt s c)\<lparr>crypt := f (crypt (clientAt s c))\<rparr>)\<rparr>"

subsection \<open>handleCryptSetup\<close>

text \<open>
  \<^verbatim>\<open>cryptstate.AESBlockSize\<close> is a constant of another package: it is the first parameter.
  \<^verbatim>\<open>proto.Unmarshal\<close> is the second: it yields the error, if any, and the decoded record.
\<close>

definition handleCryptSetup ::
  "nat \<Rightarrow> (byte list \<Rightarrow> string option \<times> CryptSetup) \<Rightarrow> ('w::len) word state \<Rightarrow> cref \<Rightarrow> Message
     \<Rightarrow> 'w word outcome" where
  "handleCryptSetup AESBlockSize unmarshal server client msg =
     (case unmarshal (buf msg) of
        (Some err, cs) \<Rightarrow> Returned server [ClientPanic client err]
      | (None, cs) \<Rightarrow>
          if length (ClientNonce cs) = 0 then
            (case copy (replicate AESBlockSize 0) (EncryptIV (crypt (clientAt server client))) of
               (nonce, n) \<Rightarrow>
                 if n \<noteq> AESBlockSize then Returned server []
                 else Returned server
                   [SendProtoMessage client MessageCryptSetup
                      (CryptSetupPayload (cs\<lparr>ClientNonce := nonce\<rparr>))])
          else if length (ClientNonce cs) \<noteq> AESBlockSize then Returned server []
          else
            (let server1 = update_crypt server client (\<lambda>c. c\<lparr>Resync := Resync c + 1\<rparr>) in
             case copy (DecryptIV (crypt (clientAt server1 client))) (ClientNonce cs) of
               (iv, n) \<Rightarrow>
                 (let server2 = update_crypt server1 client (\<lambda>c. c\<lparr>DecryptIV := iv\<rparr>) in
                  if n \<noteq> AESBlockSize then Returned server2 [] else Returned server2 [])))"

subsection \<open>handlePingMessage\<close>

definition handlePingMessage ::
  "(byte list \<Rightarrow> string option \<times> Ping) \<Rightarrow> ('w::len) word state \<Rightarrow> cref \<Rightarrow> Message
     \<Rightarrow> 'w word outcome" where
  "handlePingMessage unmarshal server client msg =
     (case unmarshal (buf msg) of
        (Some err, ping) \<Rightarrow> Returned server [ClientPanic client err]
      | (None, ping) \<Rightarrow>
          Returned server
            [SendProtoMessage client MessagePing
               (PingPayload
                  \<lparr>ping_Timestamp = ping_Timestamp ping,
                   ping_Good = Some (to_uint32 (Good (crypt (clientAt server client)))),
                   ping_Late = Some (to_uint32 (Late (crypt (clientAt server client)))),
                   ping_Lost = Some (to_uint32 (Lost (crypt (clientAt server client)))),
                   ping_Resync = Some (to_uint32 (Resync (crypt (clientAt server client))))\<rparr>)])"

subsection \<open>handleUserStateMessage\<close>

text \<open>
  After a decoding error the handler calls \<^verbatim>\<open>client.Panic\<close> and goes on with what was
  decoded.  \<^verbatim>\<open>user.Session\<close> and \<^verbatim>\<open>actor.Session\<close> dereference the results of the two
  registry lookups, in this order.  The blocks for the channel, for mute and deafen, for the
  comment, for the texture and for the registration hold no statement that writes anything:
  the first one looks the destination channel up, under the key
  \<^verbatim>\<open>int(*userstate.ChannelId)\<close>, the id as a number where \<^verbatim>\<open>int\<close> has 64 bits, and only
  logs what it finds.  The last statement compares the two pointers.
\<close>

definition self_targetting :: "UserState \<Rightarrow> bool" where
  "self_targetting userstate \<longleftrightarrow>
     us_SelfDeaf userstate \<noteq> None \<or> us_SelfMute userstate \<noteq> None \<or>
     us_Texture userstate \<noteq> None \<or> us_PluginContext userstate \<noteq> None \<or>
     us_PluginIdentity userstate \<noteq> None \<or> us_Recording userstate \<noteq> None"

definition handleUserStateMessage ::
  "(byte list \<Rightarrow> string option \<times> UserState) \<Rightarrow> 'n state \<Rightarrow> cref \<Rightarrow> Message \<Rightarrow> 'n outcome" where
  "handleUserStateMessage unmarshal server client msg =
     (case unmarshal (buf msg) of
        (err, userstate0) \<Rightarrow>
          (let evs = (case err of Some e \<Rightarrow> [ClientPanic client e] | None \<Rightarrow> []) in
           case us_Session userstate0 of
             None \<Rightarrow> Returned server evs
           | Some session \<Rightarrow>
               (let actor = clients server (Session (clientAt server client));
                    user = clients server session
                in case user of
                     None \<Rightarrow> Panicked NilDereference server evs
                   | Some u \<Rightarrow>
                       (case actor of
                          None \<Rightarrow> Panicked NilDereference server evs
                        | Some a \<Rightarrow>
                            (let userstate = userstate0
                                   \<lparr>us_Session := Some (Session (clientAt server u)),
                                    us_Actor := Some (Session (clientAt server a))\<rparr>;
                                 dstChan = (case us_ChannelId userstate of
                                              None \<Rightarrow> None
                                            | Some cid \<Rightarrow> channels server (uint cid))
                             in if actor \<noteq> user \<and> self_targetting userstate
                                then Returned server evs
                                else Returned server evs)))))"

subsection \<open>handleTextMessage\<close>

text \<open>The first loop: it appends the client of each listed session, or panics.\<close>

fun lookup_users :: "(uint32 \<rightharpoonup> cref) \<Rightarrow> uint32 list \<Rightarrow> cref list \<Rightarrow> fault + cref list" where
  "lookup_users reg [] users = Inr users"
| "lookup_users reg (session # rest) users =
     (case reg session of
        None \<Rightarrow> Inl (LogPanic ''Could not look up client by session'')
      | Some user \<Rightarrow> lookup_users reg rest (users @ [user]))"

definition handleTextMessage ::
  "(byte list \<Rightarrow> string option \<times> TextMessage) \<Rightarrow> 'n state \<Rightarrow> cref \<Rightarrow> Message \<Rightarrow> 'n outcome" where
  "handleTextMessage unmarshal server client msg =
     (case unmarshal (buf msg) of
        (Some err, txtmsg) \<Rightarrow> Returned server [ClientPanic client err]
      | (None, txtmsg) \<Rightarrow>
          (case lookup_users (clients server) (tm_Session txtmsg) [] of
             Inl f \<Rightarrow> Panicked f server []
           | Inr users \<Rightarrow>
               Returned server
                 (map (\<lambda>user. SendProtoMessage user MessageTextMessage
                         (TextMessagePayload
                            \<lparr>tm_Actor = Some (Session (clientAt server client)),
                             tm_Session = [],
                             tm_Message = tm_Message txtmsg\<rparr>))
                    users)))"

subsection \<open>Registry consistency\<close>

text \<open>Every registered client carries the session id it is registered under.\<close>

definition registry_ok :: "'n state \<Rightarrow> bool" where
  "registry_ok s \<longleftrightarrow> (\<forall>k p. clients s k = Some p \<longrightarrow> Session (clientAt s p) = k)"

subsection \<open>What the protocol calls a channel move\<close>

text \<open>
  Modelled from the spec: after a move of the user \<open>u\<close> from the channel \<open>old\<close> to the
  channel \<open>new\<close>, the user's session is no member of \<open>old\<close>, it is a member of \<open>new\<close>,
  and \<open>new\<close> is the user's current channel.
\<close>

definition moved :: "'n state \<Rightarrow> cref \<Rightarrow> chref \<Rightarrow> chref \<Rightarrow> bool" where
  "moved s u old new \<longleftrightarrow>
     Session (clientAt s u) \<notin> members (channelAt s old) \<and>
     Session (clientAt s u) \<in> members (channelAt s new) \<and>
     currentChannel (clientAt s u) = new"

subsection \<open>Concrete inputs\<close>

text \<open>A decoder that succeeds with a given record.\<close>

definition decoded :: "'m \<Rightarrow> byte list \<Rightarrow> string option \<times> 'm" where
  "decoded m b = (None, m)"

definition example_nonce :: "byte list" where
  "example_nonce = [160, 161, 162, 163, 164, 165, 166, 167, 168, 169, 170, 171, 172, 173, 174, 175]"

definition example_crypt :: "64 word CryptState" where
  "example_crypt =
     \<lparr>EncryptIV = [1, 2, 3, 4, 5, 6, 7, 8, 9, 10, 11, 12, 13, 14, 15, 16],
      DecryptIV = [0, 0, 0, 0, 0, 0, 0, 0, 0, 0, 0, 0, 0, 0, 0, 0],
      Good = 10, Late = 2, Lost = 1, Resync = 4\<rparr>"

text \<open>
  Three clients with the sessions 3, 5 and 7, at the references 30, 50 and 70, all in the
  root channel (key 0, reference 100); the channel with key 2 (reference 102) is empty.
\<close>

definition example_server :: "64 word state" where
  "example_server =
     \<lparr>clients = [3 \<mapsto> 30, 5 \<mapsto> 50, 7 \<mapsto> 70],
      channels = [0 \<mapsto> 100, 2 \<mapsto> 102],
      clientAt = (\<lambda>r. \<lparr>Session = of_nat (r div 10), crypt = example_crypt, currentChannel = 100\<rparr>),
      channelAt = (\<lambda>r. \<lparr>members = (if r = 100 then {3, 5, 7} else {})\<rparr>)\<rparr>"

definition no_userstate :: UserState where
  "no_userstate =
     \<lparr>us_Session = None, us_Actor = None, us_ChannelId = None, us_Mute = None, us_Deaf = None,
      us_Suppress = None, us_PrioritySpeaker = None, us_SelfMute = None, us_SelfDeaf = None,
      us_Comment = None, us_Texture = None, us_UserId = None, us_PluginContext = None,
      us_PluginIdentity = None, us_Recording = None\<rparr>"

section \<open>Properties\<close>

subsection \<open>Auxiliary facts\<close>

lemma copy_same_length: "length dst = length src \<Longrightarrow> copy dst src = (src, length src)"
  by (simp add: copy_def)

lemma unat_incr:
  "unat (x::'w::len word) + 1 < 2 ^ LENGTH('w) \<Longrightarrow> unat (x + 1) = unat x + 1"
  by (simp add: unat_word_ariths)

lemma to_uint32_unat: "unat (to_uint32 x) = unat x mod 2 ^ 32"
  by (simp add: to_uint32_def unsigned_ucast_eq take_bit_eq_mod)

lemma to_uint32_fits: "unat x < 2 ^ 32 \<Longrightarrow> unat (to_uint32 x) = unat x"
  by (simp add: to_uint32_unat)

lemma lookup_users_all:
  "\<forall>d\<in>set ds. reg d \<noteq> None \<Longrightarrow>
     lookup_users reg ds users = Inr (users @ map (\<lambda>d. the (reg d)) ds)"
  by (induction ds arbitrary: users) auto

lemma lookup_users_missing:
  "\<exists>d\<in>set ds. reg d = None \<Longrightarrow>
     lookup_users reg ds users = Inl (LogPanic ''Could not look up client by session'')"
  by (induction ds arbitrary: users) (auto split: option.splits)

lemma handleUserStateMessage_frame:
  "unmarshal (buf msg) = (None, userstate) \<Longrightarrow>
     final_state (handleUserStateMessage unmarshal server client msg) = server \<and>
     events (handleUserStateMessage unmarshal server client msg) = []"
  by (simp add: handleUserStateMessage_def Let_def split: option.splits)

lemma handleUserStateMessage_returns:
  "unmarshal (buf msg) = (None, userstate) \<Longrightarrow> us_Session userstate = Some session \<Longrightarrow>
   clients server (Session (clientAt server client)) \<noteq> None \<Longrightarrow>
   clients server session \<noteq> None \<Longrightarrow>
     handleUserStateMessage unmarshal server client msg = Returned server []"
  by (auto simp add: handleUserStateMessage_def Let_def split: option.splits)

lemma example_registry_ok: "registry_ok example_server"
  by (auto simp: registry_ok_def example_server_def split: if_splits)

subsection \<open>Nonce resynchronisation\<close>

text \<open>
  C4.  A CryptSetup request that decodes and carries a client nonce of exactly the block
  width, received for a client whose decrypt IV has the block width: the handler returns,
  the client's decrypt IV is the request's nonce afterwards, and the resync counter is the
  old one plus 1 (in the counter's machine arithmetic; as a number it grows by 1 unless it
  held the largest value of its type).  Nothing else changes and nothing is sent.
\<close>

theorem handleCryptSetup_resync:
  fixes server :: "('w::len) word state"
  assumes dec: "unmarshal (buf msg) = (None, cs)"
    and ne: "ClientNonce cs \<noteq> []"
    and len: "length (ClientNonce cs) = AESBlockSize"
    and iv: "length (DecryptIV (crypt (clientAt server client))) = AESBlockSize"
  shows "handleCryptSetup AESBlockSize unmarshal server client msg =
           Returned (update_crypt server client
                       (\<lambda>c. c\<lparr>Resync := Resync c + 1, DecryptIV := ClientNonce cs\<rparr>)) []
         \<and> DecryptIV (crypt (clientAt (final_state
               (handleCryptSetup AESBlockSize unmarshal server client msg)) client))
             = ClientNonce cs
         \<and> Resync (crypt (clientAt (final_state
               (handleCryptSetup AESBlockSize unmarshal server client msg)) client))
             = Resync (crypt (clientAt server client)) + 1
         \<and> (unat (Resync (crypt (clientAt server client))) + 1 < 2 ^ LENGTH('w) \<longrightarrow>
              unat (Resync (crypt (clientAt (final_state
                (handleCryptSetup AESBlockSize unmarshal server client msg)) client)))
              = unat (Resync (crypt (clientAt server client))) + 1)"
proof -
  have run: "handleCryptSetup AESBlockSize unmarshal server client msg =
           Returned (update_crypt server client
                       (\<lambda>c. c\<lparr>Resync := Resync c + 1, DecryptIV := ClientNonce cs\<rparr>)) []"
    using dec ne len iv
    by (simp add: handleCryptSetup_def update_crypt_def copy_same_length Let_def)
  have iv': "DecryptIV (crypt (clientAt (final_state
               (handleCryptSetup AESBlockSize unmarshal server client msg)) client))
             = ClientNonce cs"
    by (simp add: run update_crypt_def)
  have rs: "Resync (crypt (clientAt (final_state
               (handleCryptSetup AESBlockSize unmarshal server client msg)) client))
             = Resync (crypt (clientAt server client)) + 1"
    by (simp add: run update_crypt_def)
  show ?thesis
    using run iv' rs by (simp add: unat_incr)
qed

theorem handleCryptSetup_resync_witness:
  "DecryptIV (crypt (clientAt (final_state
      (handleCryptSetup 16 (decoded \<lparr>ClientNonce = example_nonce\<rparr>) example_server 30
         \<lparr>buf = example_nonce, kind = 15\<rparr>)) 30)) = example_nonce
   \<and> Resync (crypt (clientAt (final_state
      (handleCryptSetup 16 (decoded \<lparr>ClientNonce = example_nonce\<rparr>) example_server 30
         \<lparr>buf = example_nonce, kind = 15\<rparr>)) 30)) = 5"
  using handleCryptSetup_resync [where unmarshal = "decoded \<lparr>ClientNonce = example_nonce\<rparr>"
      and msg = "\<lparr>buf = example_nonce, kind = 15\<rparr>" and cs = "\<lparr>ClientNonce = example_nonce\<rparr>"
      and AESBlockSize = 16 and server = example_server and client = 30]
  by (simp add: decoded_def example_nonce_def example_server_def example_crypt_def update_crypt_def)

text \<open>
  C5.  A CryptSetup request that decodes and carries a non-empty client nonce whose length
  is not the block width: the handler returns with the state it was given, hence with the
  client's CryptState as it was (both IVs and all counters), and it calls neither
  \<^verbatim>\<open>sendProtoMessage\<close> (no reply) nor \<^verbatim>\<open>Panic\<close> (no disconnect).
\<close>

theorem handleCryptSetup_wrong_length:
  fixes server :: "('w::len) word state"
  assumes dec: "unmarshal (buf msg) = (None, cs)"
    and ne: "ClientNonce cs \<noteq> []"
    and len: "length (ClientNonce cs) \<noteq> AESBlockSize"
  shows "handleCryptSetup AESBlockSize unmarshal server client msg = Returned server []"
  using dec ne len by (simp add: handleCryptSetup_def)

theorem handleCryptSetup_wrong_length_witness:
  "handleCryptSetup 16 (decoded \<lparr>ClientNonce = [1, 2, 3]\<rparr>) example_server 30
     \<lparr>buf = [1, 2, 3], kind = 15\<rparr> = Returned example_server []"
  using handleCryptSetup_wrong_length [where unmarshal = "decoded \<lparr>ClientNonce = [1, 2, 3]\<rparr>"
      and msg = "\<lparr>buf = [1, 2, 3], kind = 15\<rparr>" and cs = "\<lparr>ClientNonce = [1, 2, 3]\<rparr>"
      and AESBlockSize = 16 and server = example_server and client = 30]
  by (simp add: decoded_def)

text \<open>
  C6.  A CryptSetup request that decodes and carries no client nonce: when the client's
  encrypt IV has the block width, the handler sends exactly one message, a CryptSetup to
  the requesting client whose nonce is that IV, and leaves the state as it was; when the
  encrypt IV is shorter than the block width, so that a full block cannot be copied, it
  sends nothing and leaves the state as it was.
\<close>

theorem handleCryptSetup_request_nonce:
  fixes server :: "('w::len) word state"
  assumes dec: "unmarshal (buf msg) = (None, cs)"
    and emp: "ClientNonce cs = []"
  shows "(length (EncryptIV (crypt (clientAt server client))) = AESBlockSize \<longrightarrow>
            handleCryptSetup AESBlockSize unmarshal server client msg =
              Returned server [SendProtoMessage client MessageCryptSetup
                 (CryptSetupPayload
                    (cs\<lparr>ClientNonce := EncryptIV (crypt (clientAt server client))\<rparr>))])
       \<and> (length (EncryptIV (crypt (clientAt server client))) < AESBlockSize \<longrightarrow>
            handleCryptSetup AESBlockSize unmarshal server client msg = Returned server [])"
  using dec emp by (auto simp: handleCryptSetup_def copy_def Let_def)

theorem handleCryptSetup_request_nonce_witness:
  "handleCryptSetup 16 (decoded \<lparr>ClientNonce = []\<rparr>) example_server 30 \<lparr>buf = [], kind = 15\<rparr> =
     Returned example_server [SendProtoMessage 30 MessageCryptSetup
        (CryptSetupPayload
           \<lparr>ClientNonce = [1, 2, 3, 4, 5, 6, 7, 8, 9, 10, 11, 12, 13, 14, 15, 16]\<rparr>)]
   \<and> handleCryptSetup 32 (decoded \<lparr>ClientNonce = []\<rparr>) example_server 30 \<lparr>buf = [], kind = 15\<rparr> =
     Returned example_server []"
  using handleCryptSetup_request_nonce [where unmarshal = "decoded \<lparr>ClientNonce = []\<rparr>"
      and msg = "\<lparr>buf = [], kind = 15\<rparr>" and cs = "\<lparr>ClientNonce = []\<rparr>"
      and AESBlockSize = 16 and server = example_server and client = 30]
    handleCryptSetup_request_nonce [where unmarshal = "decoded \<lparr>ClientNonce = []\<rparr>"
      and msg = "\<lparr>buf = [], kind = 15\<rparr>" and cs = "\<lparr>ClientNonce = []\<rparr>"
      and AESBlockSize = 32 and server = example_server and client = 30]
  by (simp add: decoded_def example_server_def example_crypt_def)

subsection \<open>Ping\<close>

text \<open>
  C10.  A Ping that decodes: the handler sends exactly one message, a Ping to the client the
  request came from, with the request's timestamp and with the client's four CryptState
  counters, each converted by \<^verbatim>\<open>uint32\<close> (a counter below \<open>2 ^ 32\<close> keeps its value); it
  returns the state it was given, so the counters and everything else are unchanged.
\<close>

theorem handlePingMessage_reply:
  fixes server :: "('w::len) word state"
  assumes dec: "unmarshal (buf msg) = (None, ping)"
  shows "handlePingMessage unmarshal server client msg =
           Returned server
             [SendProtoMessage client MessagePing
                (PingPayload
                   \<lparr>ping_Timestamp = ping_Timestamp ping,
                    ping_Good = Some (to_uint32 (Good (crypt (clientAt server client)))),
                    ping_Late = Some (to_uint32 (Late (crypt (clientAt server client)))),
                    ping_Lost = Some (to_uint32 (Lost (crypt (clientAt server client)))),
                    ping_Resync = Some (to_uint32 (Resync (crypt (clientAt server client))))\<rparr>)]
         \<and> (unat (Good (crypt (clientAt server client))) < 2 ^ 32 \<longrightarrow>
              unat (to_uint32 (Good (crypt (clientAt server client))))
                = unat (Good (crypt (clientAt server client))))
         \<and> (unat (Late (crypt (clientAt server client))) < 2 ^ 32 \<longrightarrow>
              unat (to_uint32 (Late (crypt (clientAt server client))))
                = unat (Late (crypt (clientAt server client))))
         \<and> (unat (Lost (crypt (clientAt server client))) < 2 ^ 32 \<longrightarrow>
              unat (to_uint32 (Lost (crypt (clientAt server client))))
                = unat (Lost (crypt (clientAt server client))))
         \<and> (unat (Resync (crypt (clientAt server client))) < 2 ^ 32 \<longrightarrow>
              unat (to_uint32 (Resync (crypt (clientAt server client))))
                = unat (Resync (crypt (clientAt server client))))"
  using dec by (simp add: handlePingMessage_def to_uint32_fits)

theorem handlePingMessage_reply_witness:
  "handlePingMessage
      (decoded \<lparr>ping_Timestamp = Some 1234, ping_Good = None, ping_Late = None,
                ping_Lost = None, ping_Resync = None\<rparr>)
      example_server 30 \<lparr>buf = [], kind = 3\<rparr> =
     Returned example_server
       [SendProtoMessage 30 MessagePing
          (PingPayload \<lparr>ping_Timestamp = Some 1234, ping_Good = Some 10, ping_Late = Some 2,
                        ping_Lost = Some 1, ping_Resync = Some 4\<rparr>)]"
  using handlePingMessage_reply [where unmarshal = "decoded \<lparr>ping_Timestamp = Some 1234,
        ping_Good = None, ping_Late = None, ping_Lost = None, ping_Resync = None\<rparr>"
      and msg = "\<lparr>buf = [], kind = 3\<rparr>" and server = example_server and client = 30
      and ping = "\<lparr>ping_Timestamp = Some 1234,
        ping_Good = None, ping_Late = None, ping_Lost = None, ping_Resync = None\<rparr>"]
  by (simp add: decoded_def example_server_def example_crypt_def to_uint32_def)

subsection \<open>User state requests\<close>

text \<open>
  C1.  A UserState request that decodes, names a session other than the session of the
  client it came from, and has one of the fields self-deaf, self-mute, texture,
  plugin-context, plugin-identity or recording: the handler leaves the whole state as it
  was and calls no method of any client, whatever other fields (a comment, say) the request
  has; when both sessions are registered it returns.  No statement of the handler applies a
  field, so none is applied before the final test either.
\<close>

theorem handleUserStateMessage_self_targetting:
  assumes dec: "unmarshal (buf msg) = (None, userstate)"
    and sess: "us_Session userstate = Some session"
    and differ: "Session (clientAt server client) \<noteq> session"
    and self: "self_targetting userstate"
  shows "final_state (handleUserStateMessage unmarshal server client msg) = server
       \<and> events (handleUserStateMessage unmarshal server client msg) = []
       \<and> (clients server (Session (clientAt server client)) \<noteq> None \<and>
          clients server session \<noteq> None \<longrightarrow>
            handleUserStateMessage unmarshal server client msg = Returned server [])"
  using dec sess
    handleUserStateMessage_frame [of unmarshal msg userstate server client]
    handleUserStateMessage_returns [of unmarshal msg userstate session server client]
  by simp

theorem handleUserStateMessage_self_targetting_witness:
  "handleUserStateMessage
     (decoded (no_userstate\<lparr>us_Session := Some 5, us_SelfMute := Some True,
                             us_Comment := Some ''hello''\<rparr>))
     example_server 30 \<lparr>buf = [], kind = 9\<rparr> = Returned example_server []"
  using handleUserStateMessage_self_targetting
    [where unmarshal = "decoded (no_userstate\<lparr>us_Session := Some 5, us_SelfMute := Some True,
                             us_Comment := Some ''hello''\<rparr>)"
      and msg = "\<lparr>buf = [], kind = 9\<rparr>" and server = example_server and client = 30
      and userstate = "no_userstate\<lparr>us_Session := Some 5, us_SelfMute := Some True,
                             us_Comment := Some ''hello''\<rparr>" and session = 5]
  by (simp add: decoded_def example_server_def no_userstate_def self_targetting_def)

text \<open>
  C2.  A UserState request whose session is not registered.  For the registry with the
  sessions 3, 5 and 7 and a request from session 3 that names session 9, the lookup yields
  nil and \<^verbatim>\<open>user.Session\<close> dereferences it: the handler panics instead of returning.
\<close>

theorem handleUserStateMessage_unknown_user:
  "handleUserStateMessage (decoded (no_userstate\<lparr>us_Session := Some 9\<rparr>))
     example_server 30 \<lparr>buf = [], kind = 9\<rparr> = Panicked NilDereference example_server []"
  by (simp add: handleUserStateMessage_def decoded_def example_server_def no_userstate_def)

text \<open>
  C8.  A UserState request that decodes and has a user-id field, whatever its value (in
  particular every value that is at least 0) and whatever the actor may do: the handler
  leaves the whole state, hence every client object, as it was and calls no method of any
  client; nothing is assigned to any user.
\<close>

theorem handleUserStateMessage_registration:
  assumes dec: "unmarshal (buf msg) = (None, userstate)"
    and reg: "us_UserId userstate = Some uid"
  shows "final_state (handleUserStateMessage unmarshal server client msg) = server
       \<and> events (handleUserStateMessage unmarshal server client msg) = []"
  using dec handleUserStateMessage_frame [of unmarshal msg userstate server client] by simp

theorem handleUserStateMessage_registration_witness:
  "final_state (handleUserStateMessage
     (decoded (no_userstate\<lparr>us_Session := Some 3, us_UserId := Some 42\<rparr>))
     example_server 30 \<lparr>buf = [], kind = 9\<rparr>) = example_server
   \<and> events (handleUserStateMessage
     (decoded (no_userstate\<lparr>us_Session := Some 3, us_UserId := Some 42\<rparr>))
     example_server 30 \<lparr>buf = [], kind = 9\<rparr>) = []"
  using handleUserStateMessage_registration
    [where unmarshal = "decoded (no_userstate\<lparr>us_Session := Some 3, us_UserId := Some 42\<rparr>)"
      and msg = "\<lparr>buf = [], kind = 9\<rparr>" and server = example_server and client = 30
      and userstate = "no_userstate\<lparr>us_Session := Some 3, us_UserId := Some 42\<rparr>" and uid = 42]
  by (simp add: decoded_def no_userstate_def)

text \<open>
  C9, as the code has it.  A UserState request that decodes and has a channel-id field: the
  handler looks the destination channel up and does nothing else with it.  Whether or not
  the checks of a move would pass, every channel's member set and every client's current
  channel are as before, and so is the rest of the state.
\<close>

theorem handleUserStateMessage_channel_no_move:
  assumes dec: "unmarshal (buf msg) = (None, userstate)"
    and chan: "us_ChannelId userstate = Some cid"
  shows "final_state (handleUserStateMessage unmarshal server client msg) = server
       \<and> events (handleUserStateMessage unmarshal server client msg) = []
       \<and> (\<forall>ch. members (channelAt (final_state
              (handleUserStateMessage unmarshal server client msg)) ch)
            = members (channelAt server ch))
       \<and> (\<forall>c. currentChannel (clientAt (final_state
              (handleUserStateMessage unmarshal server client msg)) c)
            = currentChannel (clientAt server c))"
  using dec handleUserStateMessage_frame [of unmarshal msg userstate server client] by simp

theorem handleUserStateMessage_channel_no_move_witness:
  "final_state (handleUserStateMessage
     (decoded (no_userstate\<lparr>us_Session := Some 3, us_ChannelId := Some 2\<rparr>))
     example_server 30 \<lparr>buf = [], kind = 9\<rparr>) = example_server
   \<and> events (handleUserStateMessage
     (decoded (no_userstate\<lparr>us_Session := Some 3, us_ChannelId := Some 2\<rparr>))
     example_server 30 \<lparr>buf = [], kind = 9\<rparr>) = []"
  using handleUserStateMessage_channel_no_move
    [where unmarshal = "decoded (no_userstate\<lparr>us_Session := Some 3, us_ChannelId := Some 2\<rparr>)"
      and msg = "\<lparr>buf = [], kind = 9\<rparr>" and server = example_server and client = 30
      and userstate = "no_userstate\<lparr>us_Session := Some 3, us_ChannelId := Some 2\<rparr>" and cid = 2]
  by (simp add: decoded_def no_userstate_def)

text \<open>
  C9, as it is stated, fails.  The client with session 3 asks to move itself from the root
  channel to the existing, empty channel with key 2: actor and user are the same client, so
  no move permission is needed, and the code knows no access control list or member limit
  that could refuse.  The handler returns, and the user has not moved.
\<close>

theorem handleUserStateMessage_move_counterexample:
  "clients example_server (Session (clientAt example_server 30)) = Some 30
   \<and> channels example_server 2 = Some 102
   \<and> currentChannel (clientAt example_server 30) = 100
   \<and> members (channelAt example_server 102) = {}
   \<and> handleUserStateMessage
        (decoded (no_userstate\<lparr>us_Session := Some 3, us_ChannelId := Some 2\<rparr>))
        example_server 30 \<lparr>buf = [], kind = 9\<rparr> = Returned example_server []
   \<and> \<not> moved (final_state (handleUserStateMessage
        (decoded (no_userstate\<lparr>us_Session := Some 3, us_ChannelId := Some 2\<rparr>))
        example_server 30 \<lparr>buf = [], kind = 9\<rparr>)) 30 100 102"
  by (simp add: handleUserStateMessage_def decoded_def example_server_def no_userstate_def
      moved_def self_targetting_def)

subsection \<open>Text messages\<close>

text \<open>
  C3, as the code has it.  A TextMessage that decodes and lists a session id that is not
  registered: the handler panics in \<^verbatim>\<open>log.Panic\<close> with the text
  \<open>Could not look up client by session\<close> while it collects the destinations, before it
  sends anything: no destination receives a message, the registered ones included, and
  the state is as before.
\<close>

theorem handleTextMessage_unknown_session_panics:
  assumes dec: "unmarshal (buf msg) = (None, txtmsg)"
    and missing: "\<exists>d\<in>set (tm_Session txtmsg). clients server d = None"
  shows "handleTextMessage unmarshal server client msg =
           Panicked (LogPanic ''Could not look up client by session'') server []"
  using dec lookup_users_missing [OF missing, of "[]"]
  by (simp add: handleTextMessage_def)

theorem handleTextMessage_unknown_session_panics_witness:
  "handleTextMessage
     (decoded \<lparr>tm_Actor = None, tm_Session = [5, 9], tm_Message = Some ''hi''\<rparr>)
     example_server 30 \<lparr>buf = [], kind = 11\<rparr> =
   Panicked (LogPanic ''Could not look up client by session'') example_server []"
  using handleTextMessage_unknown_session_panics
    [where unmarshal = "decoded \<lparr>tm_Actor = None, tm_Session = [5, 9], tm_Message = Some ''hi''\<rparr>"
      and msg = "\<lparr>buf = [], kind = 11\<rparr>" and server = example_server and client = 30
      and txtmsg = "\<lparr>tm_Actor = None, tm_Session = [5, 9], tm_Message = Some ''hi''\<rparr>"]
  by (simp add: decoded_def example_server_def)

text \<open>
  C3, as it is stated, fails.  Session 3 sends a text to the sessions 5 and 9, of which 9
  is not registered: the handler does not return, and session 5 gets no message.
\<close>

theorem handleTextMessage_unknown_session_counterexample:
  "\<not> returns (handleTextMessage
     (decoded \<lparr>tm_Actor = None, tm_Session = [5, 9], tm_Message = Some ''hi''\<rparr>)
     example_server 30 \<lparr>buf = [], kind = 11\<rparr>)
   \<and> events (handleTextMessage
     (decoded \<lparr>tm_Actor = None, tm_Session = [5, 9], tm_Message = Some ''hi''\<rparr>)
     example_server 30 \<lparr>buf = [], kind = 11\<rparr>) = []"
  by (simp add: handleTextMessage_def decoded_def example_server_def)

text \<open>
  C7.  A TextMessage that decodes and lists registered sessions only: the handler returns
  the state it was given and has sent, in the order of the list, exactly one TextMessage
  to the client registered under each listed session, each with the sender's session id as
  actor and with the request's text.  In a consistent registry a sender whose session is
  not listed receives nothing.
\<close>

theorem handleTextMessage_fan_out:
  assumes dec: "unmarshal (buf msg) = (None, txtmsg)"
    and known: "\<forall>d\<in>set (tm_Session txtmsg). clients server d \<noteq> None"
  shows "handleTextMessage unmarshal server client msg =
           Returned server
             (map (\<lambda>d. SendProtoMessage (the (clients server d)) MessageTextMessage
                     (TextMessagePayload
                        \<lparr>tm_Actor = Some (Session (clientAt server client)),
                         tm_Session = [],
                         tm_Message = tm_Message txtmsg\<rparr>))
                (tm_Session txtmsg))
       \<and> length (events (handleTextMessage unmarshal server client msg))
           = length (tm_Session txtmsg)
       \<and> (registry_ok server \<and> Session (clientAt server client) \<notin> set (tm_Session txtmsg) \<longrightarrow>
            client \<notin> receiver ` set (events (handleTextMessage unmarshal server client msg)))"
proof -
  let ?out = "\<lambda>d. SendProtoMessage (the (clients server d)) MessageTextMessage
                     (TextMessagePayload
                        \<lparr>tm_Actor = Some (Session (clientAt server client)),
                         tm_Session = [],
                         tm_Message = tm_Message txtmsg\<rparr>)"
  have run: "handleTextMessage unmarshal server client msg =
               Returned server (map ?out (tm_Session txtmsg))"
    using dec lookup_users_all [OF known, of "[]"]
    by (simp add: handleTextMessage_def comp_def)
  have sender: "client \<notin> receiver ` set (map ?out (tm_Session txtmsg))"
    if ok: "registry_ok server"
      and notin: "Session (clientAt server client) \<notin> set (tm_Session txtmsg)"
  proof
    have "receiver ` set (map ?out (tm_Session txtmsg))
            = (\<lambda>d. the (clients server d)) ` set (tm_Session txtmsg)"
      by (simp add: image_image)
    moreover assume "client \<in> receiver ` set (map ?out (tm_Session txtmsg))"
    ultimately obtain d where d: "d \<in> set (tm_Session txtmsg)"
      and c: "client = the (clients server d)"
      by blast
    from known d obtain p where p: "clients server d = Some p" by auto
    with c have "clients server d = Some client" by simp
    with ok have "Session (clientAt server client) = d" by (simp add: registry_ok_def)
    with d notin show False by simp
  qed
  show ?thesis using run sender by simp
qed

theorem handleTextMessage_fan_out_witness:
  "handleTextMessage
     (decoded \<lparr>tm_Actor = None, tm_Session = [5, 7], tm_Message = Some ''hi''\<rparr>)
     example_server 30 \<lparr>buf = [], kind = 11\<rparr> =
   Returned example_server
     [SendProtoMessage 50 MessageTextMessage
        (TextMessagePayload \<lparr>tm_Actor = Some 3, tm_Session = [], tm_Message = Some ''hi''\<rparr>),
      SendProtoMessage 70 MessageTextMessage
        (TextMessagePayload \<lparr>tm_Actor = Some 3, tm_Session = [], tm_Message = Some ''hi''\<rparr>)]
   \<and> 30 \<notin> receiver ` set (events (handleTextMessage
     (decoded \<lparr>tm_Actor = None, tm_Session = [5, 7], tm_Message = Some ''hi''\<rparr>)
     example_server 30 \<lparr>buf = [], kind = 11\<rparr>))"
  using handleTextMessage_fan_out
    [where unmarshal = "decoded \<lparr>tm_Actor = None, tm_Session = [5, 7], tm_Message = Some ''hi''\<rparr>"
      and msg = "\<lparr>buf = [], kind = 11\<rparr>" and server = example_server and client = 30
      and txtmsg = "\<lparr>tm_Actor = None, tm_Session = [5, 7], tm_Message = Some ''hi''\<rparr>"]
    example_registry_ok
  by (simp add: decoded_def example_server_def)

end
